theory Spec2Isabelle
  imports Main "HOL-Library.AList" "HOL-Library.Sublist"
begin

section \<open>The packaging tool \<^verbatim>\<open>tools/package-application.py\<close>\<close>

text \<open>
  The script drives an external build system through clean, configure, build and package,
  then optionally extracts the produced archive, inspects its layout and copies it to an
  output directory. It is modelled with explicit state passing: a \<open>world\<close> holds the file
  system, the text written to the two output streams and the external commands issued so
  far; a Python exception is the \<open>Inl\<close> branch of a result.
\<close>

subsection \<open>Exceptions, streams and the file system\<close>

text \<open>
  \<open>main\<close> distinguishes three handlers: \<open>subprocess.CalledProcessError\<close>,
  \<open>FileNotFoundError\<close> and every other \<open>Exception\<close>.
\<close>

datatype exn =
    CalledProcessError "string list" int
  | FileNotFoundError string
  | OtherError string

datatype stream = Stdout | Stderr

type_synonym path = "string list"

text \<open>
  A path is the list of its components below one root; the working directory is that
  root. A directory keeps its entries in the order in which the file system enumerates
  them. A regular file has an execute-permission bit and its bytes.
\<close>

datatype node = File bool string | Dir "(string \<times> node) list"

record world =
  fs :: node
  out :: "(stream \<times> string) list"
  cmds :: "string list list"

text \<open>What \<open>subprocess.run\<close> reports for one command: the executable is missing, or the
  child exits with a status and leaves the file system in some state.\<close>

datatype tool_result = ToolMissing | Exited int node

text \<open>
  Everything the script consults outside itself: the external build tool, the CPU-count
  query (which may raise), the platform test, the two archive readers (which raise on
  bytes that are no archive of their kind) and where \<open>tempfile.mkdtemp\<close> puts its
  directory.
\<close>

record env =
  run_tool :: "string list \<Rightarrow> node \<Rightarrow> tool_result"
  cpu_count :: "exn + int"
  is_windows :: bool
  read_targz :: "string \<Rightarrow> exn + (string \<times> node) list"
  read_zip :: "string \<Rightarrow> exn + (string \<times> node) list"
  temp_root :: path
  temp_token :: string

datatype build_type = Debug | Release | RelWithDebInfo | MinSizeRel

record args =
  args_target :: string
  args_build_dir :: string
  args_config :: build_type
  args_output :: string
  args_jobs :: int
  args_clean :: bool
  args_extract :: bool
  args_test :: bool
  args_verbose :: bool

subsection \<open>Printing\<close>

text \<open>\<open>print(s, file=f)\<close> writes \<open>s\<close> and a newline to \<open>f\<close>.\<close>

definition print :: "stream \<Rightarrow> string \<Rightarrow> world \<Rightarrow> world" where
  "print f s w = w\<lparr>out := out w @ [(f, s @ [CHR 0x0A])]\<rparr>"

definition print_info :: "string \<Rightarrow> world \<Rightarrow> world" where
  "print_info msg = print Stderr (''[INFO] '' @ msg)"

definition print_success :: "string \<Rightarrow> world \<Rightarrow> world" where
  "print_success msg = print Stderr (''[SUCCESS] '' @ msg)"

definition print_warning :: "string \<Rightarrow> world \<Rightarrow> world" where
  "print_warning msg = print Stderr (''[WARNING] '' @ msg)"

definition print_error :: "string \<Rightarrow> world \<Rightarrow> world" where
  "print_error msg = print Stderr (''[ERROR] '' @ msg)"

text \<open>The content of one stream: everything written to it, in order.\<close>

definition written :: "stream \<Rightarrow> world \<Rightarrow> string" where
  "written f w = concat (map snd (filter (\<lambda>e. fst e = f) (out w)))"

subsection \<open>Strings\<close>

definition startswith :: "string \<Rightarrow> string \<Rightarrow> bool" where
  "startswith s p = (take (length p) s = p)"

fun str_nat :: "nat \<Rightarrow> string" where
  "str_nat n =
     (if n < 10 then [char_of (48 + n)]
      else str_nat (n div 10) @ [char_of (48 + n mod 10)])"

definition str_int :: "int \<Rightarrow> string" where
  "str_int i = (if i < 0 then CHR ''-'' # str_nat (nat (- i)) else str_nat (nat i))"

fun str_build_type :: "build_type \<Rightarrow> string" where
  "str_build_type Debug = ''Debug''"
| "str_build_type Release = ''Release''"
| "str_build_type RelWithDebInfo = ''RelWithDebInfo''"
| "str_build_type MinSizeRel = ''MinSizeRel''"

subsection \<open>Paths\<close>

fun split_on :: "char \<Rightarrow> string \<Rightarrow> string list" where
  "split_on c [] = [[]]"
| "split_on c (x # xs) =
     (if x = c then [] # split_on c xs
      else (case split_on c xs of [] \<Rightarrow> [[x]] | h # t \<Rightarrow> (x # h) # t))"

text \<open>\<open>Path(s)\<close>: the components of \<open>s\<close>; empty components and \<open>.\<close> are dropped.\<close>

definition Path :: "string \<Rightarrow> path" where
  "Path s = filter (\<lambda>c. c \<noteq> [] \<and> c \<noteq> ''.'') (split_on CHR ''/'' s)"

fun join :: "string \<Rightarrow> string list \<Rightarrow> string" where
  "join sep [] = []"
| "join sep [x] = x"
| "join sep (x # y # ys) = x @ sep @ join sep (y # ys)"

definition path_str :: "path \<Rightarrow> string" where
  "path_str p = (if p = [] then ''.'' else join ''/'' p)"

definition name :: "path \<Rightarrow> string" where
  "name p = (if p = [] then [] else last p)"

text \<open>
  \<open>PurePath.suffix\<close>: with \<open>i\<close> the index of the last dot of the name, the suffix is
  \<open>name[i:]\<close> when \<open>0 < i < len(name) - 1\<close> and the empty string otherwise.
\<close>

definition path_suffix :: "path \<Rightarrow> string" where
  "path_suffix p =
     (let nm = name p; ext = rev (takeWhile (\<lambda>c. c \<noteq> CHR ''.'') (rev nm))
      in if CHR ''.'' \<in> set nm \<and> length ext + 1 < length nm \<and> ext \<noteq> []
         then CHR ''.'' # ext else [])"

subsection \<open>File-system operations\<close>

fun lookup :: "node \<Rightarrow> path \<Rightarrow> node option" where
  "lookup n [] = Some n"
| "lookup (File x b) (c # cs) = None"
| "lookup (Dir es) (c # cs) = (case map_of es c of None \<Rightarrow> None | Some n \<Rightarrow> lookup n cs)"

definition exists :: "node \<Rightarrow> path \<Rightarrow> bool" where
  "exists n p = (lookup n p \<noteq> None)"

definition is_dir :: "node \<Rightarrow> path \<Rightarrow> bool" where
  "is_dir n p = (case lookup n p of Some (Dir es) \<Rightarrow> True | _ \<Rightarrow> False)"

definition is_file :: "node \<Rightarrow> path \<Rightarrow> bool" where
  "is_file n p = (case lookup n p of Some (File x b) \<Rightarrow> True | _ \<Rightarrow> False)"

text \<open>Replace (or create, as the last entry of its parent) the node at a path.\<close>

fun write_node :: "path \<Rightarrow> node \<Rightarrow> node \<Rightarrow> node" where
  "write_node [] new old = new"
| "write_node (c # cs) new (File x b) = File x b"
| "write_node (c # cs) new (Dir es) =
     (if cs = [] then Dir (AList.update c new es)
      else (case map_of es c of None \<Rightarrow> Dir es
            | Some n \<Rightarrow> Dir (AList.update c (write_node cs new n) es)))"

fun remove :: "path \<Rightarrow> node \<Rightarrow> node" where
  "remove [] n = n"
| "remove (c # cs) (File x b) = File x b"
| "remove (c # cs) (Dir es) =
     (if cs = [] then Dir (AList.delete c es)
      else (case map_of es c of None \<Rightarrow> Dir es
            | Some n \<Rightarrow> Dir (AList.update c (remove cs n) es)))"

text \<open>\<open>Path.mkdir(parents=True, exist_ok=True)\<close>.\<close>

fun mkdirs :: "path \<Rightarrow> node \<Rightarrow> exn + node" where
  "mkdirs [] (Dir es) = Inr (Dir es)"
| "mkdirs [] (File x b) = Inl (OtherError ''FileExistsError'')"
| "mkdirs (c # cs) (File x b) = Inl (OtherError ''NotADirectoryError'')"
| "mkdirs (c # cs) (Dir es) =
     (case mkdirs cs (case map_of es c of None \<Rightarrow> Dir [] | Some n \<Rightarrow> n) of
        Inl e \<Rightarrow> Inl e
      | Inr n' \<Rightarrow> Inr (Dir (AList.update c n' es)))"

text \<open>
  \<open>fnmatch\<close> on one name, for patterns made of literal characters and \<open>*\<close> (the only
  ones the script uses); matching is case-sensitive, as on POSIX.
\<close>

fun fnmatch :: "string \<Rightarrow> string \<Rightarrow> bool" where
  "fnmatch [] [] = True"
| "fnmatch [] (c # cs) = False"
| "fnmatch (p # ps) [] = (p = CHR ''*'' \<and> fnmatch ps [])"
| "fnmatch (p # ps) (c # cs) =
     (if p = CHR ''*'' then fnmatch ps (c # cs) \<or> fnmatch (p # ps) cs
      else c = p \<and> fnmatch ps cs)"

text \<open>
  \<open>Path.glob(pattern)\<close> for a pattern without a separator: the immediate entries whose
  name matches, in enumeration order; nothing when the path is no directory.
\<close>

definition glob :: "node \<Rightarrow> path \<Rightarrow> string \<Rightarrow> path list" where
  "glob n d pattern =
     (case lookup n d of
        Some (Dir es) \<Rightarrow> map (\<lambda>nm. d @ [nm]) (filter (fnmatch pattern) (map fst es))
      | _ \<Rightarrow> [])"

subsection \<open>Sequencing with exceptions\<close>

type_synonym 'a action = "world \<Rightarrow> (exn + 'a) \<times> world"

definition andthen :: "'a action \<Rightarrow> ('a \<Rightarrow> 'b action) \<Rightarrow> 'b action" where
  "andthen m f w = (case m w of (Inl e, w') \<Rightarrow> (Inl e, w') | (Inr x, w') \<Rightarrow> f x w')"

definition say :: "(world \<Rightarrow> world) \<Rightarrow> unit action" where
  "say p w = (Inr (), p w)"

definition on_fs :: "(node \<Rightarrow> exn + node) \<Rightarrow> unit action" where
  "on_fs f w = (case f (fs w) of Inl e \<Rightarrow> (Inl e, w) | Inr n \<Rightarrow> (Inr (), w\<lparr>fs := n\<rparr>))"

text \<open>
  \<open>subprocess.run(cmd, check=True)\<close>: the command is recorded, the child changes the file
  system, and a nonzero exit status raises \<open>CalledProcessError\<close>. What the child writes
  to the streams it inherits is not recorded.
\<close>

definition run :: "env \<Rightarrow> string list \<Rightarrow> unit action" where
  "run e cmd w =
     (let w' = w\<lparr>cmds := cmds w @ [cmd]\<rparr>
      in case run_tool e cmd (fs w) of
           ToolMissing \<Rightarrow> (Inl (FileNotFoundError (join '' '' (take 1 cmd))), w')
         | Exited code n \<Rightarrow>
             (if code \<noteq> 0 then (Inl (CalledProcessError cmd code), w'\<lparr>fs := n\<rparr>)
              else (Inr (), w'\<lparr>fs := n\<rparr>)))"

text \<open>
  \<open>shutil.rmtree\<close>: a missing path and a regular file raise. Removing the root itself
  empties it and then fails.
\<close>

definition rmtree :: "path \<Rightarrow> unit action" where
  "rmtree p w =
     (case lookup (fs w) p of
        None \<Rightarrow> (Inl (FileNotFoundError (path_str p)), w)
      | Some (File x b) \<Rightarrow> (Inl (OtherError ''NotADirectoryError''), w)
      | Some (Dir es) \<Rightarrow>
          (if p = [] then (Inl (OtherError ''OSError''), w\<lparr>fs := Dir []\<rparr>)
           else (Inr (), w\<lparr>fs := remove p (fs w)\<rparr>)))"

subsection \<open>The build stages\<close>

definition clean_build_directory :: "path \<Rightarrow> unit action" where
  "clean_build_directory build_dir =
     andthen (say (print_info (''Cleaning build directory: '' @ path_str build_dir))) (\<lambda>_ w.
       if exists (fs w) build_dir
       then andthen (rmtree build_dir) (\<lambda>_. say (print_success ''Build directory cleaned'')) w
       else say (print_warning ''Build directory does not exist, skipping clean'') w)"

definition configure_cmd :: "path \<Rightarrow> build_type \<Rightarrow> bool \<Rightarrow> string list" where
  "configure_cmd build_dir config verbose =
     [''cmake'', ''-B'', path_str build_dir, ''-DCMAKE_BUILD_TYPE='' @ str_build_type config]
     @ (if verbose then [''-DCMAKE_VERBOSE_MAKEFILE=ON''] else [])"

definition configure_cmake :: "env \<Rightarrow> path \<Rightarrow> build_type \<Rightarrow> bool \<Rightarrow> unit action" where
  "configure_cmake e build_dir config verbose =
     andthen (say (print_info ''Configuring CMake...'')) (\<lambda>_ w.
       if \<not> exists (fs w) (build_dir @ [''CMakeCache.txt''])
       then
         andthen (on_fs (mkdirs build_dir)) (\<lambda>_.
         andthen (say (print_info
           (''Running: '' @ join '' '' (configure_cmd build_dir config verbose)))) (\<lambda>_.
         andthen (run e (configure_cmd build_dir config verbose)) (\<lambda>_.
         say (print_success ''CMake configuration complete'')))) w
       else say (print_info ''Using existing CMake configuration'') w)"

definition build_cmd :: "path \<Rightarrow> build_type \<Rightarrow> int \<Rightarrow> bool \<Rightarrow> string list" where
  "build_cmd build_dir config jobs verbose =
     [''cmake'', ''--build'', path_str build_dir, ''--config'', str_build_type config,
      ''-j'', str_int jobs]
     @ (if verbose then [''--verbose''] else [])"

definition build_project :: "env \<Rightarrow> path \<Rightarrow> build_type \<Rightarrow> int \<Rightarrow> bool \<Rightarrow> unit action" where
  "build_project e build_dir config jobs verbose =
     andthen (say (print_info ''Building project dependencies...'')) (\<lambda>_.
     andthen (say (print_info
       (''Running: '' @ join '' '' (build_cmd build_dir config jobs verbose)))) (\<lambda>_.
     andthen (run e (build_cmd build_dir config jobs verbose)) (\<lambda>_.
     say (print_success ''Build complete''))))"

subsection \<open>Packaging and artifact discovery\<close>

definition package_cmd :: "path \<Rightarrow> string \<Rightarrow> bool \<Rightarrow> string list" where
  "package_cmd build_dir target verbose =
     [''cmake'', ''--build'', path_str build_dir, ''--target'', target]
     @ (if verbose then [''--verbose''] else [])"

definition package_patterns :: "string list" where
  "package_patterns = [''*.tar.gz'', ''*.zip'']"

text \<open>The loop over the patterns: the first pattern with a match gives its first match.\<close>

fun find_package :: "node \<Rightarrow> path \<Rightarrow> string list \<Rightarrow> path option" where
  "find_package n d [] = None"
| "find_package n d (pattern # rest) =
     (case glob n d pattern of [] \<Rightarrow> find_package n d rest | p # ps \<Rightarrow> Some p)"

definition create_package :: "env \<Rightarrow> path \<Rightarrow> string \<Rightarrow> bool \<Rightarrow> path option action" where
  "create_package e build_dir target verbose =
     andthen (say (print_info (''Creating package: '' @ target))) (\<lambda>_.
     andthen (run e (package_cmd build_dir target verbose)) (\<lambda>_ w.
       case find_package (fs w) build_dir package_patterns of
         None \<Rightarrow>
           (Inr None, print_error (''Package file not found in '' @ path_str build_dir) w)
       | Some package_file \<Rightarrow>
           (Inr (Some package_file),
            print_success (''Package created: '' @ name package_file) w)))"

subsection \<open>Extraction\<close>

definition return :: "'a \<Rightarrow> 'a action" where
  "return x w = (Inr x, w)"

text \<open>
  \<open>tempfile.mkdtemp(prefix=...)\<close>: a new, empty directory below the temporary root,
  named by the prefix and a token that the environment supplies.
\<close>

definition mkdtemp :: "env \<Rightarrow> string \<Rightarrow> path action" where
  "mkdtemp e pre w =
     (let d = temp_root e @ [pre @ temp_token e]
      in if \<not> is_dir (fs w) (temp_root e) then (Inl (FileNotFoundError (path_str d)), w)
         else if exists (fs w) d then (Inl (OtherError ''FileExistsError''), w)
         else (Inr d, w\<lparr>fs := write_node d (Dir []) (fs w)\<rparr>))"

text \<open>
  Opening the archive and \<open>extractall\<close> into the (new, empty) extraction directory: the
  reader decodes the bytes of the file into the entries of the archive or raises.
\<close>

definition extractall ::
  "(string \<Rightarrow> exn + (string \<times> node) list) \<Rightarrow> path \<Rightarrow> path \<Rightarrow> unit action" where
  "extractall reader package_file extract_dir w =
     (case lookup (fs w) package_file of
        None \<Rightarrow> (Inl (FileNotFoundError (path_str package_file)), w)
      | Some (Dir es) \<Rightarrow> (Inl (OtherError ''IsADirectoryError''), w)
      | Some (File x b) \<Rightarrow>
          (case reader b of
             Inl err \<Rightarrow> (Inl err, w)
           | Inr entries \<Rightarrow>
               (Inr (), w\<lparr>fs := write_node extract_dir (Dir entries) (fs w)\<rparr>)))"

text \<open>Everything below a node, with paths relative to it (\<open>rglob('*')\<close>).\<close>

fun walk :: "node \<Rightarrow> (path \<times> node) list" where
  "walk (File x b) = []"
| "walk (Dir es) =
     concat (map (\<lambda>(nm, c). ([nm], c) # map (\<lambda>(q, d). (nm # q, d)) (walk c)) es)"

definition rglob :: "node \<Rightarrow> path \<Rightarrow> (path \<times> node) list" where
  "rglob n d = (case lookup n d of Some (Dir es) \<Rightarrow> walk (Dir es) | _ \<Rightarrow> [])"

fun is_file_node :: "node \<Rightarrow> bool" where
  "is_file_node (File x b) = True"
| "is_file_node (Dir es) = False"

text \<open>The loop of lines 195 to 198: one line on the error stream per regular file.\<close>

definition list_contents :: "path \<Rightarrow> world \<Rightarrow> world" where
  "list_contents extract_dir w =
     foldl (\<lambda>w' item. if is_file_node (snd item)
                       then print Stderr (''  '' @ path_str (fst item)) w' else w')
       w (rglob (fs w) extract_dir)"

definition extract_report :: "path \<Rightarrow> path option action" where
  "extract_report extract_dir =
     andthen (say (print_success (''Package extracted to: '' @ path_str extract_dir))) (\<lambda>_.
     andthen (say (print_info ''Package contents:'')) (\<lambda>_.
     andthen (say (list_contents extract_dir)) (\<lambda>_.
     return (Some extract_dir))))"

definition extract_package :: "env \<Rightarrow> path \<Rightarrow> path option action" where
  "extract_package e package_file =
     andthen (say (print_info ''Extracting package for verification...'')) (\<lambda>_.
     andthen (mkdtemp e ''mcf-package-test-'') (\<lambda>extract_dir.
       if path_suffix package_file = ''.gz''
       then andthen (extractall (read_targz e) package_file extract_dir)
              (\<lambda>_. extract_report extract_dir)
       else if path_suffix package_file = ''.zip''
       then andthen (extractall (read_zip e) package_file extract_dir)
              (\<lambda>_. extract_report extract_dir)
       else andthen
              (say (print_error (''Unknown package format: '' @ path_str package_file)))
              (\<lambda>_. return None)))"

subsection \<open>The structural tests\<close>

definition iterdir :: "path \<Rightarrow> path list action" where
  "iterdir d w =
     (case lookup (fs w) d of
        None \<Rightarrow> (Inl (FileNotFoundError (path_str d)), w)
      | Some (File x b) \<Rightarrow> (Inl (OtherError ''NotADirectoryError''), w)
      | Some (Dir es) \<Rightarrow> (Inr (map (\<lambda>nm. d @ [nm]) (map fst es)), w))"

text \<open>\<open>os.access(p, os.X_OK)\<close>: the execute bit of a file; a directory is searchable.\<close>

definition access_x :: "node \<Rightarrow> path \<Rightarrow> bool" where
  "access_x n p = (case lookup n p of None \<Rightarrow> False | Some (File x b) \<Rightarrow> x | Some (Dir es) \<Rightarrow> True)"

text \<open>\<open>readlines()\<close>: the lines of a text, each with its newline.\<close>

fun readlines :: "string \<Rightarrow> string list" where
  "readlines [] = []"
| "readlines (c # cs) =
     (if c = CHR 0x0A then [c] # readlines cs
      else (case readlines cs of [] \<Rightarrow> [[c]] | l # ls \<Rightarrow> (c # l) # ls))"

text \<open>Lines 221 to 232: the \<open>bin\<close> check; its result is the value of \<open>errors\<close> after it.\<close>

definition check_bin :: "env \<Rightarrow> path \<Rightarrow> nat action" where
  "check_bin e package_dir w =
     (let bin_dir = package_dir @ [''bin'']
      in if \<not> exists (fs w) bin_dir
         then (Inr 1, print_warning ''Missing bin/ directory'' w)
         else
           (let w1 = print_success ''bin/ directory found'' w;
                found = glob (fs w1) bin_dir ''*'';
                executables =
                  (if is_windows e then filter (\<lambda>x. path_suffix x = ''.exe'') found
                   else filter (access_x (fs w1)) found)
            in (Inr 0, print_info (''  Executables: '' @ str_nat (length executables)) w1)))"

text \<open>Lines 234 to 241.\<close>

definition check_plugins :: "path \<Rightarrow> unit action" where
  "check_plugins package_dir w =
     (let plugins_dir = package_dir @ [''plugins'']
      in if exists (fs w) plugins_dir
         then
           (let w1 = print_success ''plugins/ directory found'' w;
                plugins = concat (map (glob (fs w1) plugins_dir) [''*.so'', ''*.dll'', ''*.dylib''])
            in (Inr (), print_info (''  Plugins: '' @ str_nat (length plugins)) w1))
         else (Inr (), w))"

text \<open>Lines 243 to 248.\<close>

definition check_config :: "path \<Rightarrow> unit action" where
  "check_config package_dir w =
     (let config_dir = package_dir @ [''config'']
      in if exists (fs w) config_dir
         then
           (let w1 = print_success ''config/ directory found'' w;
                configs = filter (\<lambda>c. is_file_node (snd c)) (rglob (fs w1) config_dir)
            in (Inr (), print_info (''  Config files: '' @ str_nat (length configs)) w1))
         else (Inr (), w))"

text \<open>Lines 250 to 260: the three bare \<open>print\<close> calls write to standard output.\<close>

definition check_readme :: "path \<Rightarrow> unit action" where
  "check_readme package_dir w =
     (let readme = package_dir @ [''README.txt'']
      in case lookup (fs w) readme of
           None \<Rightarrow> (Inr (), print_warning ''Missing README.txt'' w)
         | Some nd \<Rightarrow>
             (let w1 = print_success ''README.txt found'' w;
                  w2 = print_info ''README contents:'' w1;
                  w3 = print Stdout ''----------------------------------------'' w2
              in case nd of
                   Dir es \<Rightarrow> (Inl (OtherError ''IsADirectoryError''), w3)
                 | File x b \<Rightarrow>
                     (let w4 = print Stdout (concat (take 20 (readlines b))) w3
                      in (Inr (), print Stdout ''----------------------------------------'' w4))))"

definition test_package :: "env \<Rightarrow> path \<Rightarrow> bool action" where
  "test_package e extract_dir =
     andthen (say (print_info ''Running basic package tests...'')) (\<lambda>_.
     andthen (iterdir extract_dir) (\<lambda>entries w.
       case filter (is_dir (fs w)) entries of
         [] \<Rightarrow>
           (Inr False,
            print_error (''Could not find package directory in '' @ path_str extract_dir) w)
       | package_dir # others \<Rightarrow>
           (andthen (say (print_info (''Package directory: '' @ path_str package_dir))) (\<lambda>_.
            andthen (say (print_info ''Checking directory structure...'')) (\<lambda>_.
            andthen (check_bin e package_dir) (\<lambda>errors.
            andthen (check_plugins package_dir) (\<lambda>_.
            andthen (check_config package_dir) (\<lambda>_.
            andthen (check_readme package_dir) (\<lambda>_.
            andthen (say (if errors = 0 then print_success ''All package tests passed''
                          else print_warning (''Package tests completed with ''
                                 @ str_nat errors @ '' warnings''))) (\<lambda>_.
            andthen (say (print_info
              (''Extracted package location: '' @ path_str package_dir))) (\<lambda>_.
            andthen (say (print_info (''You can manually test by running: cd ''
              @ path_str package_dir @ '' && ./bin/<executable>''))) (\<lambda>_.
            return (errors = 0))))))))))) w))"

subsection \<open>Publishing\<close>

text \<open>
  \<open>shutil.copy2(src, dst)\<close>: a destination that is a directory receives the file under the
  source's name; copying a file onto itself raises.
\<close>

definition copy2 :: "path \<Rightarrow> path \<Rightarrow> node \<Rightarrow> exn + node" where
  "copy2 src dst n =
     (case lookup n src of
        None \<Rightarrow> Inl (FileNotFoundError (path_str src))
      | Some (Dir es) \<Rightarrow> Inl (OtherError ''IsADirectoryError'')
      | Some (File x b) \<Rightarrow>
          (let dst' = (if is_dir n dst then dst @ [name src] else dst)
           in if dst' = src then Inl (OtherError ''SameFileError'')
              else if is_dir n dst' then Inl (OtherError ''IsADirectoryError'')
              else if dst' \<noteq> [] \<and> is_dir n (butlast dst')
                then Inr (write_node dst' (File x b) n)
              else Inl (FileNotFoundError (path_str dst'))))"

definition copy_to_output :: "path \<Rightarrow> path \<Rightarrow> unit action" where
  "copy_to_output package_file output_dir =
     andthen (say (print_info ''Copying package to output directory...'')) (\<lambda>_.
     andthen (on_fs (mkdirs output_dir)) (\<lambda>_.
     andthen (on_fs (copy2 package_file (output_dir @ [name package_file]))) (\<lambda>_.
     say (print_success
       (''Package copied to: '' @ path_str (output_dir @ [name package_file]))))))"

subsection \<open>Resolving the arguments (\<open>main\<close>, before the workflow)\<close>

definition get_cpu_count :: "env \<Rightarrow> int" where
  "get_cpu_count e = (case cpu_count e of Inr n \<Rightarrow> n | Inl _ \<Rightarrow> 4)"

text \<open>Lines 289 to 292 of \<open>main\<close>.\<close>

definition normalize_target :: "args \<Rightarrow> world \<Rightarrow> args \<times> world" where
  "normalize_target a w =
     (if \<not> startswith (args_target a) ''package-''
      then (a\<lparr>args_target := ''package-'' @ args_target a\<rparr>,
            print_warning
              ''Target name should start with 'package-'. Prepending it automatically.'' w)
      else (a, w))"

text \<open>Lines 294 to 296 of \<open>main\<close>.\<close>

definition resolve_jobs :: "env \<Rightarrow> args \<Rightarrow> args" where
  "resolve_jobs e a = (if args_jobs a = 0 then a\<lparr>args_jobs := get_cpu_count e\<rparr> else a)"

text \<open>Lines 298 to 300 of \<open>main\<close>.\<close>

definition imply_extract :: "args \<Rightarrow> args" where
  "imply_extract a = (if args_test a then a\<lparr>args_extract := True\<rparr> else a)"

subsection \<open>The workflow and \<open>main\<close>\<close>

text \<open>The body of the \<open>try\<close> block, lines 314 to 346; its value is the exit status.\<close>

definition workflow :: "env \<Rightarrow> args \<Rightarrow> path \<Rightarrow> path option \<Rightarrow> int action" where
  "workflow e a build_dir output_dir =
     andthen (if args_clean a then clean_build_directory build_dir else return ()) (\<lambda>_.
     andthen (configure_cmake e build_dir (args_config a) (args_verbose a)) (\<lambda>_.
     andthen (build_project e build_dir (args_config a) (args_jobs a) (args_verbose a)) (\<lambda>_.
     andthen (create_package e build_dir (args_target a) (args_verbose a)) (\<lambda>created.
       case created of
         None \<Rightarrow> andthen (say (print_error ''Packaging failed'')) (\<lambda>_. return 1)
       | Some package_file \<Rightarrow>
           andthen (if args_extract a then extract_package e package_file
                    else return None) (\<lambda>extract_dir.
           andthen (case extract_dir of
                      None \<Rightarrow> return ()
                    | Some d \<Rightarrow> if args_test a
                                then andthen (test_package e d) (\<lambda>_. return ())
                                else return ()) (\<lambda>_.
           andthen (case output_dir of
                      None \<Rightarrow> return ()
                    | Some od \<Rightarrow> copy_to_output package_file od) (\<lambda>_.
           andthen (say (print Stdout [])) (\<lambda>_.
           andthen (say (print_success ''Packaging complete!'')) (\<lambda>_.
           andthen (say (print_info (''Package location: '' @ path_str package_file))) (\<lambda>_.
           andthen (say (case output_dir of
                      None \<Rightarrow> (\<lambda>w. w)
                    | Some od \<Rightarrow> print_info (''Output location: ''
                                   @ path_str (od @ [name package_file])))) (\<lambda>_.
           andthen (say (case extract_dir of
                      None \<Rightarrow> (\<lambda>w. w)
                    | Some d \<Rightarrow> print_info (''Extracted for testing: '' @ path_str d))) (\<lambda>_.
           return 0))))))))))))"

text \<open>\<open>str(e)\<close> of an exception (for a child that exited with a status).\<close>

fun exn_str :: "exn \<Rightarrow> string" where
  "exn_str (CalledProcessError cmd code) =
     ''Command '' @ [CHR 0x27, CHR ''[''] @ join '', '' (map (\<lambda>s. [CHR 0x27] @ s @ [CHR 0x27]) cmd)
     @ [CHR '']'', CHR 0x27] @ '' returned non-zero exit status '' @ str_int code @ ''.''"
| "exn_str (FileNotFoundError f) =
     ''[Errno 2] No such file or directory: '' @ [CHR 0x27] @ f @ [CHR 0x27]"
| "exn_str (OtherError m) = m"

text \<open>The three \<open>except\<close> clauses, lines 348 to 356.\<close>

fun handler :: "exn \<Rightarrow> world \<Rightarrow> world" where
  "handler (CalledProcessError cmd code) =
     print_error (''Command failed: '' @ exn_str (CalledProcessError cmd code))"
| "handler (FileNotFoundError f) =
     print_error (''File not found: '' @ exn_str (FileNotFoundError f))"
| "handler (OtherError m) = print_error (''Unexpected error: '' @ exn_str (OtherError m))"

text \<open>Lines 302 to 308: the banner, ending with a bare \<open>print("")\<close>.\<close>

definition banner :: "args \<Rightarrow> world \<Rightarrow> world" where
  "banner a w =
     print Stdout []
       (print_info (''Build Jobs: '' @ str_int (args_jobs a))
       (print_info (''Build Type: '' @ str_build_type (args_config a))
       (print_info (''Build Directory: '' @ args_build_dir a)
       (print_info (''Package Target: '' @ args_target a)
       (print_info (replicate 31 CHR ''='')
       (print_info ''MCF Application Packaging Tool'' w))))))"

definition main :: "env \<Rightarrow> args \<Rightarrow> world \<Rightarrow> int \<times> world" where
  "main e a0 w0 =
     (let (a1, w1) = normalize_target a0 w0;
          a = imply_extract (resolve_jobs e a1);
          w = banner a w1;
          build_dir = Path (args_build_dir a);
          output_dir = (if args_output a \<noteq> [] then Some (Path (args_output a)) else None)
      in case workflow e a build_dir output_dir w of
           (Inr status, w') \<Rightarrow> (status, w')
         | (Inl err, w') \<Rightarrow> (1, handler err w'))"

subsection \<open>Sample inputs\<close>

text \<open>
  A stub of the build tool, as a test double would provide it: configuring writes the
  cache marker, building the packaging target writes the given artifact (if any) into the
  build directory, and every command exits with status 0. The two archive readers accept
  one byte string each and decode it to the same tree.
\<close>

definition sample_tree :: "(string \<times> node) list" where
  "sample_tree =
     [(''my_app'', Dir [(''bin'', Dir [(''my_app'', File True ''ELF'')]),
                        (''README.txt'', File False (''My application'' @ [CHR 0x0A]))])]"

definition stub_env :: "(string \<times> string) option \<Rightarrow> env" where
  "stub_env artifact =
     \<lparr>run_tool = (\<lambda>cmd n.
        if ''--target'' \<in> set cmd
        then Exited 0 (case artifact of None \<Rightarrow> n
                       | Some (nm, bytes) \<Rightarrow> write_node [''build'', nm] (File False bytes) n)
        else if ''-B'' \<in> set cmd
        then Exited 0 (write_node [''build'', ''CMakeCache.txt''] (File False []) n)
        else Exited 0 n),
      cpu_count = Inr 8,
      is_windows = False,
      read_targz = (\<lambda>b. if b = ''TGZ'' then Inr sample_tree else Inl (OtherError ''ReadError'')),
      read_zip = (\<lambda>b. if b = ''ZIP'' then Inr sample_tree else Inl (OtherError ''BadZipFile'')),
      temp_root = [''tmp''],
      temp_token = ''x1''\<rparr>"

definition sample_args :: args where
  "sample_args =
     \<lparr>args_target = ''my_app'', args_build_dir = ''build'', args_config = Release,
      args_output = [], args_jobs = 0, args_clean = False, args_extract = True,
      args_test = True, args_verbose = False\<rparr>"

definition fresh_world :: world where
  "fresh_world = \<lparr>fs = Dir [(''tmp'', Dir [])], out = [], cmds = []\<rparr>"

definition built_world :: world where
  "built_world =
     \<lparr>fs = Dir [(''tmp'', Dir []),
                (''build'', Dir [(''CMakeCache.txt'', File False []),
                                 (''foo.zip'', File False ''ZIP''),
                                 (''foo.tar.gz'', File False ''TGZ'')])],
      out = [], cmds = []\<rparr>"

section \<open>Properties\<close>

subsection \<open>Basic facts\<close>

declare str_nat.simps [simp del]

lemma fs_print [simp]: "fs (print f s w) = fs w"
  and cmds_print [simp]: "cmds (print f s w) = cmds w"
  and out_print [simp]: "out (print f s w) = out w @ [(f, s @ [CHR 0x0A])]"
  by (simp_all add: print_def)

lemmas print_defs = print_info_def print_success_def print_warning_def print_error_def

lemma lookup_append:
  "lookup n (p @ q) = (case lookup n p of None \<Rightarrow> None | Some m \<Rightarrow> lookup m q)"
  by (induction n p rule: lookup.induct) (auto split: option.splits)

lemma mkdirs_is_dir: "mkdirs p n = Inr n' \<Longrightarrow> is_dir n' p"
  by (induction p n arbitrary: n' rule: mkdirs.induct)
    (auto simp: is_dir_def update_conv' split: sum.splits option.splits node.splits)

lemma lookup_write_node:
  "is_dir n p \<Longrightarrow> lookup (write_node (p @ [c]) new n) (p @ [c]) = Some new"
  by (induction n p rule: lookup.induct)
    (auto simp: is_dir_def update_conv' split: option.splits node.splits)

lemma lookup_remove: "p \<noteq> [] \<Longrightarrow> lookup (remove p n) p = None"
  by (induction p n rule: remove.induct) (auto simp: delete_conv' update_conv' split: option.splits)


subsection \<open>Target normalisation\<close>

lemma startswith_append: "startswith (p @ s) p"
  by (simp add: startswith_def)

text \<open>
  Claim C4. A target name that lacks the prefix \<open>package-\<close> is resolved to the prefix
  followed by the original name (the prefix is prepended once); a name that already
  carries the prefix is left unchanged; and normalising a second time changes nothing
  and warns no more.
\<close>

theorem normalize_target_prefix_once:
  "(\<not> startswith (args_target a) ''package-'' \<longrightarrow>
      args_target (fst (normalize_target a w)) = ''package-'' @ args_target a)
   \<and> (startswith (args_target a) ''package-'' \<longrightarrow> normalize_target a w = (a, w))
   \<and> normalize_target (fst (normalize_target a w)) w' = (fst (normalize_target a w), w')"
  using startswith_append [of "''package-''" "args_target a"]
  by (simp add: normalize_target_def)

theorem normalize_target_prefix_once_witness:
  "\<not> startswith ''my_app'' ''package-''
   \<and> args_target (fst (normalize_target
        \<lparr>args_target = ''my_app'', args_build_dir = ''build'', args_config = Release, args_output = [],
         args_jobs = 0, args_clean = False, args_extract = False, args_test = False, args_verbose = False\<rparr>
        \<lparr>fs = Dir [], out = [], cmds = []\<rparr>)) = ''package-my_app''
   \<and> startswith ''package-my_app'' ''package-''
   \<and> args_target (fst (normalize_target
        \<lparr>args_target = ''package-my_app'', args_build_dir = ''build'', args_config = Release, args_output = [],
         args_jobs = 0, args_clean = False, args_extract = False, args_test = False, args_verbose = False\<rparr>
        \<lparr>fs = Dir [], out = [], cmds = []\<rparr>)) = ''package-my_app''"
  using normalize_target_prefix_once
    [of "\<lparr>args_target = ''my_app'', args_build_dir = ''build'', args_config = Release, args_output = [],
         args_jobs = 0, args_clean = False, args_extract = False, args_test = False, args_verbose = False\<rparr>"
        "\<lparr>fs = Dir [], out = [], cmds = []\<rparr>" "\<lparr>fs = Dir [], out = [], cmds = []\<rparr>"]
    normalize_target_prefix_once
    [of "\<lparr>args_target = ''package-my_app'', args_build_dir = ''build'', args_config = Release, args_output = [],
         args_jobs = 0, args_clean = False, args_extract = False, args_test = False, args_verbose = False\<rparr>"
        "\<lparr>fs = Dir [], out = [], cmds = []\<rparr>" "\<lparr>fs = Dir [], out = [], cmds = []\<rparr>"]
  by (simp add: startswith_def)

subsection \<open>Job count\<close>

text \<open>
  Claim C9. With a job count of zero and a CPU-count query that raises, the resolved job
  count is 4 (no exception escapes: the resolution is a total function); a nonzero job
  count is passed through unchanged, whatever the query would answer.
\<close>

theorem resolve_jobs_fallback:
  "(args_jobs a = 0 \<and> cpu_count e = Inl x \<longrightarrow> args_jobs (resolve_jobs e a) = 4)
   \<and> (args_jobs a \<noteq> 0 \<longrightarrow> resolve_jobs e a = a)"
  by (simp add: resolve_jobs_def get_cpu_count_def)

theorem resolve_jobs_fallback_witness:
  "args_jobs (resolve_jobs
      \<lparr>run_tool = (\<lambda>c n. ToolMissing), cpu_count = Inl (OtherError ''NotImplementedError''),
       is_windows = False, read_targz = (\<lambda>b. Inr []), read_zip = (\<lambda>b. Inr []),
       temp_root = [''tmp''], temp_token = ''a1''\<rparr>
      \<lparr>args_target = ''package-my_app'', args_build_dir = ''build'', args_config = Release, args_output = [],
       args_jobs = 0, args_clean = False, args_extract = False, args_test = False, args_verbose = False\<rparr>) = 4
   \<and> args_jobs (resolve_jobs
      \<lparr>run_tool = (\<lambda>c n. ToolMissing), cpu_count = Inl (OtherError ''NotImplementedError''),
       is_windows = False, read_targz = (\<lambda>b. Inr []), read_zip = (\<lambda>b. Inr []),
       temp_root = [''tmp''], temp_token = ''a1''\<rparr>
      \<lparr>args_target = ''package-my_app'', args_build_dir = ''build'', args_config = Release, args_output = [],
       args_jobs = 3, args_clean = False, args_extract = False, args_test = False, args_verbose = False\<rparr>) = 3"
  using resolve_jobs_fallback
    [of "\<lparr>args_target = ''package-my_app'', args_build_dir = ''build'', args_config = Release, args_output = [],
         args_jobs = 0, args_clean = False, args_extract = False, args_test = False, args_verbose = False\<rparr>"
        "\<lparr>run_tool = (\<lambda>c n. ToolMissing), cpu_count = Inl (OtherError ''NotImplementedError''),
         is_windows = False, read_targz = (\<lambda>b. Inr []), read_zip = (\<lambda>b. Inr []),
         temp_root = [''tmp''], temp_token = ''a1''\<rparr>" "OtherError ''NotImplementedError''"]
    resolve_jobs_fallback
    [of "\<lparr>args_target = ''package-my_app'', args_build_dir = ''build'', args_config = Release, args_output = [],
         args_jobs = 3, args_clean = False, args_extract = False, args_test = False, args_verbose = False\<rparr>"
        "\<lparr>run_tool = (\<lambda>c n. ToolMissing), cpu_count = Inl (OtherError ''NotImplementedError''),
         is_windows = False, read_targz = (\<lambda>b. Inr []), read_zip = (\<lambda>b. Inr []),
         temp_root = [''tmp''], temp_token = ''a1''\<rparr>" "OtherError ''NotImplementedError''"]
  by simp


subsection \<open>Cleaning\<close>

text \<open>
  Claim C8. If the build directory exists (as a directory, and is not the working
  directory itself), cleaning succeeds and removes it with everything below it, issues no
  command, and a second clean finds nothing, warns and succeeds. If the path does not
  exist, cleaning raises nothing: it prints the information line and the warning and
  leaves the file system as it was.
\<close>

theorem clean_build_directory_idempotent:
  "(is_dir (fs w) build_dir \<and> build_dir \<noteq> [] \<longrightarrow>
      (\<exists>w'. clean_build_directory build_dir w = (Inr (), w')
         \<and> (\<forall>q. \<not> exists (fs w') (build_dir @ q))
         \<and> cmds w' = cmds w
         \<and> clean_build_directory build_dir w' =
             (Inr (), print_warning ''Build directory does not exist, skipping clean''
                (print_info (''Cleaning build directory: '' @ path_str build_dir) w'))))
   \<and> (\<not> exists (fs w) build_dir \<longrightarrow>
        clean_build_directory build_dir w =
          (Inr (), print_warning ''Build directory does not exist, skipping clean''
             (print_info (''Cleaning build directory: '' @ path_str build_dir) w)))"
  by (auto simp: clean_build_directory_def andthen_def say_def rmtree_def exists_def is_dir_def
      print_defs lookup_remove lookup_append split: option.splits node.splits)

theorem clean_build_directory_idempotent_witness:
  "is_dir (fs built_world) [''build'']
   \<and> fst (clean_build_directory [''build''] built_world) = Inr ()
   \<and> \<not> exists (fs (snd (clean_build_directory [''build''] built_world))) [''build'']
   \<and> \<not> exists (fs fresh_world) [''build'']
   \<and> fst (clean_build_directory [''build''] fresh_world) = Inr ()
   \<and> fs (snd (clean_build_directory [''build''] fresh_world)) = fs fresh_world"
proof -
  have h1: "is_dir (fs built_world) [''build'']"
    by (simp add: built_world_def is_dir_def)
  have h2: "\<not> exists (fs fresh_world) [''build'']"
    by (simp add: fresh_world_def exists_def)
  from h1 clean_build_directory_idempotent [of built_world "[''build'']"]
  obtain w' where "clean_build_directory [''build''] built_world = (Inr (), w')"
    and "\<forall>q. \<not> exists (fs w') ([''build''] @ q)"
    by auto
  then have "fst (clean_build_directory [''build''] built_world) = Inr ()"
    and "\<not> exists (fs (snd (clean_build_directory [''build''] built_world))) ([''build''] @ [])"
    by auto
  moreover from h2 clean_build_directory_idempotent [of fresh_world "[''build'']"]
  have "fst (clean_build_directory [''build''] fresh_world) = Inr ()"
    and "fs (snd (clean_build_directory [''build''] fresh_world)) = fs fresh_world"
    by (simp_all add: print_defs)
  ultimately show ?thesis using h1 h2 by simp
qed

subsection \<open>Configuring\<close>

lemma configure_cmake_configured:
  "exists (fs w) (build_dir @ [''CMakeCache.txt'']) \<Longrightarrow>
   configure_cmake e build_dir config verbose w =
     (Inr (), print_info ''Using existing CMake configuration''
        (print_info ''Configuring CMake...'' w))"
  by (simp add: configure_cmake_def andthen_def say_def print_defs)

lemma configure_cmake_cmds:
  "configure_cmake e build_dir config verbose w = (r, w') \<Longrightarrow>
   cmds w' = cmds w \<or> cmds w' = cmds w @ [configure_cmd build_dir config verbose]"
  by (auto simp: configure_cmake_def andthen_def say_def print_defs on_fs_def run_def Let_def
      split: if_splits sum.splits tool_result.splits prod.splits)

lemma configure_cmake_marker:
  assumes "\<forall>n n'. is_dir n build_dir
             \<and> run_tool e (configure_cmd build_dir config verbose) n = Exited 0 n'
             \<longrightarrow> exists n' (build_dir @ [''CMakeCache.txt''])"
    and "configure_cmake e build_dir config verbose w = (Inr u, w')"
  shows "exists (fs w') (build_dir @ [''CMakeCache.txt''])"
  using assms
  by (auto simp: configure_cmake_def andthen_def say_def print_defs on_fs_def run_def Let_def
      dest: mkdirs_is_dir split: if_splits sum.splits tool_result.splits prod.splits)

text \<open>
  Claim C5. With the cache marker present in the build directory, configuring is a no-op
  whatever build type and verbosity are requested: it prints two information lines,
  issues no command and leaves the file system alone. Hence, for a build tool whose
  successful configure command (run on an existing build directory) leaves the marker
  behind, configuring twice in a row
  (with any build types) issues at most one command; a first configure that raises ends
  the sequence.
\<close>

theorem configure_cmake_at_most_once:
  "(exists (fs w) (build_dir @ [''CMakeCache.txt'']) \<longrightarrow>
      configure_cmake e build_dir config verbose w =
        (Inr (), print_info ''Using existing CMake configuration''
           (print_info ''Configuring CMake...'' w)))
   \<and> ((\<forall>n n'. is_dir n build_dir
             \<and> run_tool e (configure_cmd build_dir config verbose) n = Exited 0 n'
             \<longrightarrow> exists n' (build_dir @ [''CMakeCache.txt'']))
       \<longrightarrow> length (cmds (snd (andthen (configure_cmake e build_dir config verbose)
              (\<lambda>_. configure_cmake e build_dir config' verbose') w))) \<le> length (cmds w) + 1)"
proof (intro conjI impI)
  assume "exists (fs w) (build_dir @ [''CMakeCache.txt''])"
  then show "configure_cmake e build_dir config verbose w =
        (Inr (), print_info ''Using existing CMake configuration''
           (print_info ''Configuring CMake...'' w))"
    by (rule configure_cmake_configured)
next
  assume contract: "\<forall>n n'. is_dir n build_dir
             \<and> run_tool e (configure_cmd build_dir config verbose) n = Exited 0 n'
             \<longrightarrow> exists n' (build_dir @ [''CMakeCache.txt''])"
  obtain r w1 where first: "configure_cmake e build_dir config verbose w = (r, w1)"
    by (cases "configure_cmake e build_dir config verbose w")
  from configure_cmake_cmds [OF first]
  have len1: "length (cmds w1) \<le> length (cmds w) + 1" by auto
  show "length (cmds (snd (andthen (configure_cmake e build_dir config verbose)
              (\<lambda>_. configure_cmake e build_dir config' verbose') w))) \<le> length (cmds w) + 1"
  proof (cases r)
    case (Inl err)
    with first len1 show ?thesis by (simp add: andthen_def)
  next
    case (Inr u)
    with first contract have "exists (fs w1) (build_dir @ [''CMakeCache.txt''])"
      using configure_cmake_marker by blast
    then have "configure_cmake e build_dir config' verbose' w1 =
        (Inr (), print_info ''Using existing CMake configuration''
           (print_info ''Configuring CMake...'' w1))"
      by (rule configure_cmake_configured)
    with first Inr len1 show ?thesis by (simp add: andthen_def print_defs)
  qed
qed

end
